theory Spec2Isabelle
  imports Main
begin

section \<open>Bytes, errors and the struct codec\<close>

text \<open>
  Python byte strings are lists of 8-bit characters; \<open>b'USBC'\<close> is \<open>''USBC''\<close>.
  Python integers are unbounded, so every integer of the driver is an \<open>int\<close>.
\<close>

type_synonym bytes = string

text \<open>
  The exceptions the driver can end with: \<open>usb.core.USBError\<close> from the device handle,
  \<open>struct.error\<close> from packing or unpacking, \<open>AttributeError\<close> from reading an
  attribute that was never set, and the driver's own \<open>Exception(message)\<close>.
\<close>

datatype error = USBError | StructError | AttributeError | Exception string

text \<open>
  Modelled from the spec: the fixed-layout struct codec (class \<open>Struct\<close> of the package
  \<open>util\<close>, which is not part of the driver file). An integer field of \<open>n\<close> bytes is written
  little-endian and only takes values from \<open>0\<close> to \<open>256 ^ n - 1\<close>; a byte-string field is
  written at its fixed width; decoding needs at least as many bytes as the structure has
  and reads the leading ones.
\<close>

fun dump_le :: "nat \<Rightarrow> int \<Rightarrow> bytes" where
  "dump_le 0 v = []"
| "dump_le (Suc n) v = char_of (v mod 256) # dump_le n (v div 256)"

fun parse_le :: "bytes \<Rightarrow> int" where
  "parse_le [] = 0"
| "parse_le (b # bs) = of_char b + 256 * parse_le bs"

definition fits :: "nat \<Rightarrow> int \<Rightarrow> bool" where
  "fits n v \<longleftrightarrow> 0 \<le> v \<and> v < 256 ^ n"

definition pack_str :: "nat \<Rightarrow> bytes \<Rightarrow> bytes" where
  "pack_str n s = take n (s @ replicate n (CHR 0x00))"

definition field :: "nat \<Rightarrow> nat \<Rightarrow> bytes \<Rightarrow> bytes" where
  "field off n data = take n (drop off data)"

text \<open>\<open>dump8\<close> and \<open>dump32le\<close> of the package \<open>util\<close>: one integer, packed on its own.\<close>

definition dump8 :: "int \<Rightarrow> error + bytes" where
  "dump8 v = (if fits 1 v then Inr (dump_le 1 v) else Inl StructError)"

definition dump32le :: "int \<Rightarrow> error + bytes" where
  "dump32le v = (if fits 4 v then Inr (dump_le 4 v) else Inl StructError)"

subsection \<open>PtpHeader\<close>

record PtpHeader =
  ptp_size :: int
  ptp_type :: int
  ptp_code :: int
  ptp_transaction :: int

definition PtpHeader_size :: nat where
  "PtpHeader_size = 12"

definition PtpHeader_pack :: "PtpHeader \<Rightarrow> error + bytes" where
  "PtpHeader_pack h =
     (if fits 4 (ptp_size h) \<and> fits 2 (ptp_type h) \<and> fits 2 (ptp_code h)
         \<and> fits 4 (ptp_transaction h)
      then Inr (dump_le 4 (ptp_size h) @ dump_le 2 (ptp_type h) @ dump_le 2 (ptp_code h)
                @ dump_le 4 (ptp_transaction h))
      else Inl StructError)"

definition PtpHeader_unpack :: "bytes \<Rightarrow> error + PtpHeader" where
  "PtpHeader_unpack data =
     (if length data < PtpHeader_size then Inl StructError
      else Inr \<lparr>ptp_size = parse_le (field 0 4 data),
                ptp_type = parse_le (field 4 2 data),
                ptp_code = parse_le (field 6 2 data),
                ptp_transaction = parse_le (field 8 4 data)\<rparr>)"

subsection \<open>MscCommandBlockWrapper\<close>

record MscCommandBlockWrapper =
  cbw_signature :: bytes
  cbw_tag :: int
  cbw_dataTransferLength :: int
  cbw_flags :: int
  cbw_lun :: int
  cbw_commandLength :: int
  cbw_command :: bytes

definition MscCommandBlockWrapper_size :: nat where
  "MscCommandBlockWrapper_size = 31"

definition MscCommandBlockWrapper_pack :: "MscCommandBlockWrapper \<Rightarrow> error + bytes" where
  "MscCommandBlockWrapper_pack c =
     (if fits 4 (cbw_tag c) \<and> fits 4 (cbw_dataTransferLength c) \<and> fits 1 (cbw_flags c)
         \<and> fits 1 (cbw_lun c) \<and> fits 1 (cbw_commandLength c)
      then Inr (pack_str 4 (cbw_signature c) @ dump_le 4 (cbw_tag c)
                @ dump_le 4 (cbw_dataTransferLength c) @ dump_le 1 (cbw_flags c)
                @ dump_le 1 (cbw_lun c) @ dump_le 1 (cbw_commandLength c)
                @ pack_str 16 (cbw_command c))
      else Inl StructError)"

definition MscCommandBlockWrapper_unpack :: "bytes \<Rightarrow> error + MscCommandBlockWrapper" where
  "MscCommandBlockWrapper_unpack data =
     (if length data < MscCommandBlockWrapper_size then Inl StructError
      else Inr \<lparr>cbw_signature = field 0 4 data,
                cbw_tag = parse_le (field 4 4 data),
                cbw_dataTransferLength = parse_le (field 8 4 data),
                cbw_flags = parse_le (field 12 1 data),
                cbw_lun = parse_le (field 13 1 data),
                cbw_commandLength = parse_le (field 14 1 data),
                cbw_command = field 15 16 data\<rparr>)"

subsection \<open>MscCommandStatusWrapper\<close>

record MscCommandStatusWrapper =
  csw_signature :: bytes
  csw_tag :: int
  csw_dataResidue :: int
  csw_status :: int

definition MscCommandStatusWrapper_size :: nat where
  "MscCommandStatusWrapper_size = 13"

definition MscCommandStatusWrapper_pack :: "MscCommandStatusWrapper \<Rightarrow> error + bytes" where
  "MscCommandStatusWrapper_pack c =
     (if fits 4 (csw_tag c) \<and> fits 4 (csw_dataResidue c) \<and> fits 1 (csw_status c)
      then Inr (pack_str 4 (csw_signature c) @ dump_le 4 (csw_tag c)
                @ dump_le 4 (csw_dataResidue c) @ dump_le 1 (csw_status c))
      else Inl StructError)"

definition MscCommandStatusWrapper_unpack :: "bytes \<Rightarrow> error + MscCommandStatusWrapper" where
  "MscCommandStatusWrapper_unpack data =
     (if length data < MscCommandStatusWrapper_size then Inl StructError
      else Inr \<lparr>csw_signature = field 0 4 data,
                csw_tag = parse_le (field 4 4 data),
                csw_dataResidue = parse_le (field 8 4 data),
                csw_status = parse_le (field 12 1 data)\<rparr>)"

section \<open>UsbDriver: bulk reading and writing\<close>

text \<open>
  The device handle is outside the driver. Its behaviour in one run is the outcome of each
  call made on it, in order: call number \<open>i\<close> (counted from 0 over reads, writes and
  halt clearings alike) either raises \<open>usb.core.USBError\<close> or completes; a completed
  read delivers the bytes of its outcome, a completed write or halt clearing delivers
  nothing the driver looks at. The calls made so far are kept in \<open>trace\<close>, oldest first.
\<close>

datatype usb_outcome = Raises_USBError | Completes bytes

datatype usb_call = DevRead int int | DevWrite int bytes | DevClearHalt int

record UsbDriver =
  script :: "nat \<Rightarrow> usb_outcome"
  trace :: "usb_call list"
  epIn :: int
  epOut :: int

definition dev_call :: "usb_call \<Rightarrow> 'a UsbDriver_scheme \<Rightarrow> usb_outcome \<times> 'a UsbDriver_scheme" where
  "dev_call c s = (script s (length (trace s)), s\<lparr>trace := trace s @ [c]\<rparr>)"

definition UsbDriver_read :: "int \<Rightarrow> 'a UsbDriver_scheme \<Rightarrow> (error + bytes) \<times> 'a UsbDriver_scheme" where
  "UsbDriver_read len s =
     (case dev_call (DevRead (epIn s) len) s of
        (Raises_USBError, s') \<Rightarrow> (Inl USBError, s')
      | (Completes d, s') \<Rightarrow> (Inr d, s'))"

definition UsbDriver_write :: "bytes \<Rightarrow> 'a UsbDriver_scheme \<Rightarrow> (error + unit) \<times> 'a UsbDriver_scheme" where
  "UsbDriver_write data s =
     (case dev_call (DevWrite (epOut s) data) s of
        (Raises_USBError, s') \<Rightarrow> (Inl USBError, s')
      | (Completes d, s') \<Rightarrow> (Inr (), s'))"

definition UsbDriver_clear_halt :: "int \<Rightarrow> 'a UsbDriver_scheme \<Rightarrow> (error + unit) \<times> 'a UsbDriver_scheme" where
  "UsbDriver_clear_halt ep s =
     (case dev_call (DevClearHalt ep) s of
        (Raises_USBError, s') \<Rightarrow> (Inl USBError, s')
      | (Completes d, s') \<Rightarrow> (Inr (), s'))"

text \<open>The buffers handed to \<open>write\<close> in a stretch of the trace, in order.\<close>

fun written :: "usb_call list \<Rightarrow> bytes list" where
  "written [] = []"
| "written (DevWrite ep data # cs) = data # written cs"
| "written (c # cs) = written cs"

section \<open>MscDriver: USB mass storage\<close>

definition MSC_OC_REQUEST_SENSE :: int where
  "MSC_OC_REQUEST_SENSE = 0x03"

definition DIRECTION_WRITE :: int where
  "DIRECTION_WRITE = 0"

definition DIRECTION_READ :: int where
  "DIRECTION_READ = 0x80"

text \<open>Python's \<open>bytes.ljust\<close>: fill on the right up to the width, never cut.\<close>

definition ljust :: "nat \<Rightarrow> char \<Rightarrow> bytes \<Rightarrow> bytes" where
  "ljust w c s = s @ replicate (w - length s) c"

definition MscDriver_writeCommand ::
  "int \<Rightarrow> bytes \<Rightarrow> int \<Rightarrow> int \<Rightarrow> int \<Rightarrow> 'a UsbDriver_scheme
     \<Rightarrow> (error + unit) \<times> 'a UsbDriver_scheme" where
  "MscDriver_writeCommand direction command dataSize tag lun s =
     (case MscCommandBlockWrapper_pack
             \<lparr>cbw_signature = ''USBC'',
              cbw_tag = tag,
              cbw_dataTransferLength = dataSize,
              cbw_flags = direction,
              cbw_lun = lun,
              cbw_commandLength = int (length command),
              cbw_command = ljust 16 (CHR 0x00) command\<rparr> of
        Inl e \<Rightarrow> (Inl e, s)
      | Inr cbw \<Rightarrow> UsbDriver_write cbw s)"

text \<open>The command bytes that \<open>requestSense\<close> builds, for its \<open>size\<close> of 18.\<close>

definition requestSense_command :: "int \<Rightarrow> error + bytes" where
  "requestSense_command sz =
     (case dump8 MSC_OC_REQUEST_SENSE of
        Inl e \<Rightarrow> Inl e
      | Inr opc \<Rightarrow>
          (case dump8 sz of
             Inl e \<Rightarrow> Inl e
           | Inr len \<Rightarrow> Inr (opc @ replicate 3 (CHR 0x00) @ len @ [CHR 0x00])))"

text \<open>
  The sense parser \<open>parseMscSense\<close> and the value \<open>MSC_SENSE_OK\<close> belong to the package
  of the drivers and are parameters of the model. The parser receives what
  \<open>sendReadCommand\<close> returned as data (\<open>None\<close> or a byte string) and may raise.

  The status phase, the sense request and the read command call each other:
  \<open>_readResponse\<close> asks for the sense data only when \<open>failOnError\<close> is false, and
  \<open>requestSense\<close> reads with \<open>failOnError\<close> true.
\<close>

function MscDriver_readResponse ::
    "(bytes option \<Rightarrow> error + 'sense) \<Rightarrow> 'sense \<Rightarrow> bool \<Rightarrow> 'a UsbDriver_scheme
       \<Rightarrow> (error + 'sense) \<times> 'a UsbDriver_scheme"
  and MscDriver_requestSense ::
    "(bytes option \<Rightarrow> error + 'sense) \<Rightarrow> 'sense \<Rightarrow> 'a UsbDriver_scheme
       \<Rightarrow> (error + 'sense) \<times> 'a UsbDriver_scheme"
  and MscDriver_sendReadCommand ::
    "(bytes option \<Rightarrow> error + 'sense) \<Rightarrow> 'sense \<Rightarrow> bytes \<Rightarrow> int \<Rightarrow> bool \<Rightarrow> 'a UsbDriver_scheme
       \<Rightarrow> (error + 'sense \<times> bytes option) \<times> 'a UsbDriver_scheme"
where
  "MscDriver_readResponse parseMscSense MSC_SENSE_OK failOnError s =
     (case UsbDriver_read (int MscCommandStatusWrapper_size) s of
        (Inl e, s1) \<Rightarrow> (Inl e, s1)
      | (Inr raw, s1) \<Rightarrow>
          (case MscCommandStatusWrapper_unpack raw of
             Inl e \<Rightarrow> (Inl e, s1)
           | Inr response \<Rightarrow>
               if csw_signature response \<noteq> ''USBS''
               then (Inl (Exception ''Wrong status signature''), s1)
               else if csw_status response \<noteq> 0
               then (if failOnError
                     then (Inl (Exception ''Mass storage error''), s1)
                     else MscDriver_requestSense parseMscSense MSC_SENSE_OK s1)
               else (Inr MSC_SENSE_OK, s1)))"
| "MscDriver_requestSense parseMscSense MSC_SENSE_OK s =
     (case requestSense_command 18 of
        Inl e \<Rightarrow> (Inl e, s)
      | Inr command \<Rightarrow>
          (case MscDriver_sendReadCommand parseMscSense MSC_SENSE_OK command 18 True s of
             (Inl e, s1) \<Rightarrow> (Inl e, s1)
           | (Inr (response, data), s1) \<Rightarrow>
               (case parseMscSense data of
                  Inl e \<Rightarrow> (Inl e, s1)
                | Inr sense \<Rightarrow> (Inr sense, s1))))"
| "MscDriver_sendReadCommand parseMscSense MSC_SENSE_OK command sz failOnError s =
     (case MscDriver_writeCommand DIRECTION_READ command sz 0 0 s of
        (Inl e, s1) \<Rightarrow> (Inl e, s1)
      | (Inr u, s1) \<Rightarrow>
          (case (case UsbDriver_read sz s1 of
                   (Inr d, s2) \<Rightarrow> (Inr (False, Some d), s2)
                 | (Inl USBError, s2) \<Rightarrow>
                     (case UsbDriver_clear_halt (epIn s2) s2 of
                        (Inl e, s3) \<Rightarrow> (Inl e, s3)
                      | (Inr u, s3) \<Rightarrow> (Inr (True, None), s3))
                 | (Inl e, s2) \<Rightarrow> (Inl e, s2)) of
             (Inl e, s3) \<Rightarrow> (Inl e, s3)
           | (Inr (stalled, data), s3) \<Rightarrow>
               (case MscDriver_readResponse parseMscSense MSC_SENSE_OK failOnError s3 of
                  (Inl e, s4) \<Rightarrow> (Inl e, s4)
                | (Inr sense, s4) \<Rightarrow>
                    if stalled \<and> sense = MSC_SENSE_OK
                    then (Inl (Exception ''Mass storage read error''), s4)
                    else (Inr (sense, data), s4))))"
  by pat_completeness auto
termination
  by (relation "measure (\<lambda>x. case x of
         Inl (p, k, f, s) \<Rightarrow> (if f then 0 else 3)
       | Inr (Inl (p, k, s)) \<Rightarrow> 2
       | Inr (Inr (p, k, c, n, f, s)) \<Rightarrow> (if f then 1 else 4))") auto

declare MscDriver_readResponse.simps [simp del]
declare MscDriver_requestSense.simps [simp del]
declare MscDriver_sendReadCommand.simps [simp del]

definition MscDriver_sendCommand ::
  "(bytes option \<Rightarrow> error + 'sense) \<Rightarrow> 'sense \<Rightarrow> bytes \<Rightarrow> bool \<Rightarrow> 'a UsbDriver_scheme
     \<Rightarrow> (error + 'sense) \<times> 'a UsbDriver_scheme" where
  "MscDriver_sendCommand parseMscSense MSC_SENSE_OK command failOnError s =
     (case MscDriver_writeCommand DIRECTION_WRITE command 0 0 0 s of
        (Inl e, s1) \<Rightarrow> (Inl e, s1)
      | (Inr u, s1) \<Rightarrow> MscDriver_readResponse parseMscSense MSC_SENSE_OK failOnError s1)"

definition MscDriver_sendWriteCommand ::
  "(bytes option \<Rightarrow> error + 'sense) \<Rightarrow> 'sense \<Rightarrow> bytes \<Rightarrow> bytes \<Rightarrow> bool \<Rightarrow> 'a UsbDriver_scheme
     \<Rightarrow> (error + 'sense) \<times> 'a UsbDriver_scheme" where
  "MscDriver_sendWriteCommand parseMscSense MSC_SENSE_OK command data failOnError s =
     (case MscDriver_writeCommand DIRECTION_WRITE command (int (length data)) 0 0 s of
        (Inl e, s1) \<Rightarrow> (Inl e, s1)
      | (Inr u, s1) \<Rightarrow>
          (case (case UsbDriver_write data s1 of
                   (Inr u, s2) \<Rightarrow> (Inr False, s2)
                 | (Inl USBError, s2) \<Rightarrow>
                     (case UsbDriver_clear_halt (epOut s2) s2 of
                        (Inl e, s3) \<Rightarrow> (Inl e, s3)
                      | (Inr u, s3) \<Rightarrow> (Inr True, s3))
                 | (Inl e, s2) \<Rightarrow> (Inl e, s2)) of
             (Inl e, s3) \<Rightarrow> (Inl e, s3)
           | (Inr stalled, s3) \<Rightarrow>
               (case MscDriver_readResponse parseMscSense MSC_SENSE_OK failOnError s3 of
                  (Inl e, s4) \<Rightarrow> (Inl e, s4)
                | (Inr sense, s4) \<Rightarrow>
                    if stalled \<and> sense = MSC_SENSE_OK
                    then (Inl (Exception ''Mass storage write error''), s4)
                    else (Inr sense, s4))))"

section \<open>MtpDriver: PTP/MTP packets\<close>

text \<open>
  The attribute \<open>transaction\<close> does not exist on a new instance (\<open>None\<close>); the first
  command creates it.
\<close>

record MtpDriver = UsbDriver +
  transaction :: "int option"

definition MAX_PKG_LEN :: int where
  "MAX_PKG_LEN = 512"

definition TYPE_COMMAND :: int where
  "TYPE_COMMAND = 1"

definition TYPE_DATA :: int where
  "TYPE_DATA = 2"

definition TYPE_RESPONSE :: int where
  "TYPE_RESPONSE = 3"

definition writePtp ::
  "int \<Rightarrow> int \<Rightarrow> int \<Rightarrow> bytes \<Rightarrow> 'a UsbDriver_scheme \<Rightarrow> (error + unit) \<times> 'a UsbDriver_scheme" where
  "writePtp type code transaction' data s =
     (case PtpHeader_pack
             \<lparr>ptp_size = int PtpHeader_size + int (length data),
              ptp_type = type,
              ptp_code = code,
              ptp_transaction = transaction'\<rparr> of
        Inl e \<Rightarrow> (Inl e, s)
      | Inr header \<Rightarrow> UsbDriver_write (header @ data) s)"

text \<open>
  The loop \<open>while data == b'': data = self.read(self.MAX_PKG_LEN)\<close>. A device that answers
  every read with no bytes keeps it running for ever: the result is then \<open>None\<close>.
\<close>

partial_function (option) readPtp_loop ::
  "bytes \<Rightarrow> 'a UsbDriver_scheme \<Rightarrow> ((error + bytes) \<times> 'a UsbDriver_scheme) option" where
  "readPtp_loop data s =
     (if data = []
      then (case UsbDriver_read MAX_PKG_LEN s of
              (Inl e, s1) \<Rightarrow> Some (Inl e, s1)
            | (Inr d, s1) \<Rightarrow> readPtp_loop d s1)
      else Some (Inr data, s))"

text \<open>Python's slice \<open>data[a:a+n]\<close> for \<open>a\<close> and \<open>n\<close> that are not negative.\<close>

definition slice :: "nat \<Rightarrow> int \<Rightarrow> bytes \<Rightarrow> bytes" where
  "slice a n data = take (nat n) (drop a data)"

definition readPtp ::
  "'a UsbDriver_scheme \<Rightarrow> ((error + int \<times> int \<times> int \<times> bytes) \<times> 'a UsbDriver_scheme) option" where
  "readPtp s =
     (case readPtp_loop [] s of
        None \<Rightarrow> None
      | Some (Inl e, s1) \<Rightarrow> Some (Inl e, s1)
      | Some (Inr data, s1) \<Rightarrow>
          (case PtpHeader_unpack data of
             Inl e \<Rightarrow> Some (Inl e, s1)
           | Inr header \<Rightarrow>
               if ptp_size header > MAX_PKG_LEN
               then (case UsbDriver_read (ptp_size header - MAX_PKG_LEN) s1 of
                       (Inl e, s2) \<Rightarrow> Some (Inl e, s2)
                     | (Inr rest, s2) \<Rightarrow>
                         Some (Inr (ptp_type header, ptp_code header, ptp_transaction header,
                                    slice PtpHeader_size (ptp_size header) (data @ rest)), s2))
               else Some (Inr (ptp_type header, ptp_code header, ptp_transaction header,
                               slice PtpHeader_size (ptp_size header) data), s1)))"

text \<open>Python's \<open>'%x' % n\<close> for \<open>n\<close> that is not negative.\<close>

definition hex_digit :: "nat \<Rightarrow> char" where
  "hex_digit d = ''0123456789abcdef'' ! d"

fun hex :: "nat \<Rightarrow> string" where
  "hex n = (if n < 16 then [hex_digit n] else hex (n div 16) @ [hex_digit (n mod 16)])"

declare hex.simps [simp del]

definition wrong_response_type :: "int \<Rightarrow> error" where
  "wrong_response_type type = Exception (''Wrong response type: 0x'' @ hex (nat type))"

definition readData ::
  "'a UsbDriver_scheme \<Rightarrow> ((error + bytes) \<times> 'a UsbDriver_scheme) option" where
  "readData s =
     (case readPtp s of
        None \<Rightarrow> None
      | Some (Inl e, s1) \<Rightarrow> Some (Inl e, s1)
      | Some (Inr (type, code, transaction', data), s1) \<Rightarrow>
          if type \<noteq> TYPE_DATA then Some (Inl (wrong_response_type type), s1)
          else Some (Inr data, s1))"

definition MtpDriver_readResponse ::
  "'a UsbDriver_scheme \<Rightarrow> ((error + int) \<times> 'a UsbDriver_scheme) option" where
  "MtpDriver_readResponse s =
     (case readPtp s of
        None \<Rightarrow> None
      | Some (Inl e, s1) \<Rightarrow> Some (Inl e, s1)
      | Some (Inr (type, code, transaction', data), s1) \<Rightarrow>
          if type \<noteq> TYPE_RESPONSE then Some (Inl (wrong_response_type type), s1)
          else Some (Inr code, s1))"

text \<open>\<open>b''.join([dump32le(arg) for arg in args])\<close>: the first argument out of range raises.\<close>

fun join_dump32le :: "int list \<Rightarrow> error + bytes" where
  "join_dump32le [] = Inr []"
| "join_dump32le (arg # args) =
     (case dump32le arg of
        Inl e \<Rightarrow> Inl e
      | Inr b \<Rightarrow> (case join_dump32le args of Inl e \<Rightarrow> Inl e | Inr bs \<Rightarrow> Inr (b @ bs)))"

definition writeInitialCommand ::
  "int \<Rightarrow> int list \<Rightarrow> 'a MtpDriver_scheme \<Rightarrow> (error + unit) \<times> 'a MtpDriver_scheme" where
  "writeInitialCommand code args s =
     (let t = (case transaction s of None \<Rightarrow> 0 | Some t0 \<Rightarrow> t0 + 1);
          s1 = s\<lparr>transaction := Some t\<rparr>
      in case join_dump32le args of
           Inl e \<Rightarrow> (Inl e, s1)
         | Inr payload \<Rightarrow> writePtp TYPE_COMMAND code t payload s1)"

definition MtpDriver_sendCommand ::
  "int \<Rightarrow> int list \<Rightarrow> 'a MtpDriver_scheme \<Rightarrow> ((error + int) \<times> 'a MtpDriver_scheme) option" where
  "MtpDriver_sendCommand code args s =
     (case writeInitialCommand code args s of
        (Inl e, s1) \<Rightarrow> Some (Inl e, s1)
      | (Inr u, s1) \<Rightarrow> MtpDriver_readResponse s1)"

definition MtpDriver_sendWriteCommand ::
  "int \<Rightarrow> int list \<Rightarrow> bytes \<Rightarrow> 'a MtpDriver_scheme
     \<Rightarrow> ((error + int) \<times> 'a MtpDriver_scheme) option" where
  "MtpDriver_sendWriteCommand code args data s =
     (case writeInitialCommand code args s of
        (Inl e, s1) \<Rightarrow> Some (Inl e, s1)
      | (Inr u, s1) \<Rightarrow>
          (case transaction s1 of
             None \<Rightarrow> Some (Inl AttributeError, s1)
           | Some t \<Rightarrow>
               (case writePtp TYPE_DATA code t data s1 of
                  (Inl e, s2) \<Rightarrow> Some (Inl e, s2)
                | (Inr u, s2) \<Rightarrow> MtpDriver_readResponse s2)))"

definition MtpDriver_sendReadCommand ::
  "int \<Rightarrow> int list \<Rightarrow> 'a MtpDriver_scheme
     \<Rightarrow> ((error + int \<times> bytes) \<times> 'a MtpDriver_scheme) option" where
  "MtpDriver_sendReadCommand code args s =
     (case writeInitialCommand code args s of
        (Inl e, s1) \<Rightarrow> Some (Inl e, s1)
      | (Inr u, s1) \<Rightarrow>
          (case readData s1 of
             None \<Rightarrow> None
           | Some (Inl e, s2) \<Rightarrow> Some (Inl e, s2)
           | Some (Inr data, s2) \<Rightarrow>
               (case MtpDriver_readResponse s2 of
                  None \<Rightarrow> None
                | Some (Inl e, s3) \<Rightarrow> Some (Inl e, s3)
                | Some (Inr code', s3) \<Rightarrow> Some (Inr (code', data), s3))))"

section \<open>Notions used in the statements\<close>

text \<open>A field assignment is valid when every integer fits its width and every byte string
  has exactly the width of its field.\<close>

definition PtpHeader_valid :: "PtpHeader \<Rightarrow> bool" where
  "PtpHeader_valid h \<longleftrightarrow>
     fits 4 (ptp_size h) \<and> fits 2 (ptp_type h) \<and> fits 2 (ptp_code h) \<and> fits 4 (ptp_transaction h)"

definition cbw_valid :: "MscCommandBlockWrapper \<Rightarrow> bool" where
  "cbw_valid c \<longleftrightarrow>
     length (cbw_signature c) = 4 \<and> fits 4 (cbw_tag c) \<and> fits 4 (cbw_dataTransferLength c)
     \<and> fits 1 (cbw_flags c) \<and> fits 1 (cbw_lun c) \<and> fits 1 (cbw_commandLength c)
     \<and> length (cbw_command c) = 16"

definition csw_valid :: "MscCommandStatusWrapper \<Rightarrow> bool" where
  "csw_valid c \<longleftrightarrow>
     length (csw_signature c) = 4 \<and> fits 4 (csw_tag c) \<and> fits 4 (csw_dataResidue c)
     \<and> fits 1 (csw_status c)"

text \<open>The bytes of a command block wrapper as the interface table lays them out: signature,
  tag, data length (32 bits each, lowest byte first), flags, lun, command length, and the
  command filled with zeros to 16 bytes.\<close>

definition le32_spec :: "int \<Rightarrow> bytes" where
  "le32_spec v = [char_of (v mod 256), char_of (v div 256 mod 256),
                  char_of (v div 65536 mod 256), char_of (v div 16777216 mod 256)]"

definition cbw_wire_spec :: "int \<Rightarrow> int \<Rightarrow> int \<Rightarrow> int \<Rightarrow> bytes \<Rightarrow> bytes" where
  "cbw_wire_spec tag dataSize direction lun command =
     ''USBC'' @ le32_spec tag @ le32_spec dataSize
     @ [char_of direction, char_of lun, char_of (int (length command))]
     @ command @ replicate (16 - length command) (CHR 0x00)"

text \<open>The device calls made between two states of one run.\<close>

definition calls_since :: "'a UsbDriver_scheme \<Rightarrow> 'a UsbDriver_scheme \<Rightarrow> usb_call list" where
  "calls_since s s' = drop (length (trace s)) (trace s')"

text \<open>The command block that asks for 18 bytes of sense data.\<close>

definition REQUEST_SENSE_BYTES :: bytes where
  "REQUEST_SENSE_BYTES = [CHR 0x03, CHR 0x00, CHR 0x00, CHR 0x00, CHR 0x12, CHR 0x00]"

text \<open>Sample devices and a sample sense parser, for trying the drivers on concrete runs.\<close>

definition parse_example :: "bytes option \<Rightarrow> error + bytes" where
  "parse_example data = (case data of None \<Rightarrow> Inl AttributeError | Some d \<Rightarrow> Inr (take 3 d))"

definition csw_bytes :: "int \<Rightarrow> bytes" where
  "csw_bytes status = ''USBS'' @ replicate 8 (CHR 0x00) @ [char_of status]"

definition sense_device :: UsbDriver where
  "sense_device =
     \<lparr>script = (\<lambda>i. if i = 0 then Completes (csw_bytes 1)
                     else if i = 2 then Completes (replicate 18 (CHR 0x05))
                     else if i = 3 then Completes (csw_bytes 0)
                     else Completes []),
      trace = [], epIn = 0x81, epOut = 0x02\<rparr>"

definition stall_device :: UsbDriver where
  "stall_device =
     \<lparr>script = (\<lambda>i. if i = 1 then Raises_USBError
                     else if i = 3 then Completes (csw_bytes 0)
                     else Completes []),
      trace = [], epIn = 0x81, epOut = 0x02\<rparr>"

definition stall_sense_device :: UsbDriver where
  "stall_sense_device =
     \<lparr>script = (\<lambda>i. if i = 1 then Raises_USBError
                     else if i = 3 then Completes (csw_bytes 1)
                     else if i = 5 then Completes (replicate 18 (CHR 0x05))
                     else if i = 6 then Completes (csw_bytes 0)
                     else Completes []),
      trace = [], epIn = 0x81, epOut = 0x02\<rparr>"

text \<open>Tag and lun of a written buffer read as a command block wrapper.\<close>

definition cbw_tag_lun :: "bytes \<Rightarrow> (int \<times> int) option" where
  "cbw_tag_lun bs =
     (case MscCommandBlockWrapper_unpack bs of
        Inl e \<Rightarrow> None
      | Inr c \<Rightarrow> Some (cbw_tag c, cbw_lun c))"

text \<open>A later state of the same run: its trace starts with the earlier trace.\<close>

definition extends :: "'a UsbDriver_scheme \<Rightarrow> 'a UsbDriver_scheme \<Rightarrow> bool" where
  "extends s s' \<longleftrightarrow> take (length (trace s)) (trace s') = trace s"

text \<open>The buffers written between two states of one run.\<close>

definition wrote :: "'a UsbDriver_scheme \<Rightarrow> 'a UsbDriver_scheme \<Rightarrow> bytes list" where
  "wrote s s' = written (calls_since s s')"

definition write_sense_device :: UsbDriver where
  "write_sense_device =
     \<lparr>script = (\<lambda>i. if i = 2 then Completes (csw_bytes 1)
                     else if i = 4 then Completes (replicate 18 (CHR 0x05))
                     else if i = 5 then Completes (csw_bytes 0)
                     else Completes []),
      trace = [], epIn = 0x81, epOut = 0x02\<rparr>"

section \<open>Codec lemmas\<close>

lemma length_dump_le: "length (dump_le n v) = n"
  by (induction n arbitrary: v) auto

lemma parse_dump_le: "0 \<le> v \<Longrightarrow> v < 256 ^ n \<Longrightarrow> parse_le (dump_le n v) = v"
proof (induction n arbitrary: v)
  case 0
  then show ?case by simp
next
  case (Suc n)
  have "0 \<le> v div 256" using Suc.prems by simp
  moreover have "v div 256 < 256 ^ n" using Suc.prems by simp
  ultimately have "parse_le (dump_le n (v div 256)) = v div 256"
    by (rule Suc.IH)
  then show ?case by simp
qed

lemma length_pack_str: "length (pack_str n s) = n"
  by (simp add: pack_str_def)

lemma pack_str_exact: "length s = n \<Longrightarrow> pack_str n s = s"
  by (simp add: pack_str_def)

lemma PtpHeader_unpack_pack:
  "PtpHeader_valid h \<Longrightarrow> PtpHeader_pack h = Inr bs \<Longrightarrow> PtpHeader_unpack bs = Inr h"
  by (auto simp add: PtpHeader_valid_def PtpHeader_pack_def PtpHeader_unpack_def PtpHeader_size_def
      field_def length_dump_le parse_dump_le fits_def)

lemma cbw_unpack_pack:
  "MscCommandBlockWrapper_pack c = Inr bs \<Longrightarrow>
   MscCommandBlockWrapper_unpack bs =
     Inr (c\<lparr>cbw_signature := pack_str 4 (cbw_signature c),
            cbw_command := pack_str 16 (cbw_command c)\<rparr>)"
  by (auto simp add: MscCommandBlockWrapper_pack_def MscCommandBlockWrapper_unpack_def
      MscCommandBlockWrapper_size_def field_def length_dump_le length_pack_str parse_dump_le
      fits_def split: if_splits)

lemma csw_unpack_pack:
  "MscCommandStatusWrapper_pack c = Inr bs \<Longrightarrow>
   MscCommandStatusWrapper_unpack bs = Inr (c\<lparr>csw_signature := pack_str 4 (csw_signature c)\<rparr>)"
  by (auto simp add: MscCommandStatusWrapper_pack_def MscCommandStatusWrapper_unpack_def
      MscCommandStatusWrapper_size_def field_def length_dump_le length_pack_str parse_dump_le
      fits_def split: if_splits)

text \<open>
  C8: for every valid field assignment of PtpHeader, MscCommandBlockWrapper and
  MscCommandStatusWrapper, packing succeeds and unpacking the packed bytes gives the
  original fields back.
\<close>

theorem codec_roundtrip:
  "(PtpHeader_valid h \<longrightarrow> (\<exists>bs. PtpHeader_pack h = Inr bs \<and> PtpHeader_unpack bs = Inr h))
   \<and> (cbw_valid c \<longrightarrow>
        (\<exists>bs. MscCommandBlockWrapper_pack c = Inr bs \<and> MscCommandBlockWrapper_unpack bs = Inr c))
   \<and> (csw_valid w \<longrightarrow>
        (\<exists>bs. MscCommandStatusWrapper_pack w = Inr bs \<and> MscCommandStatusWrapper_unpack bs = Inr w))"
proof (intro conjI impI)
  assume v: "PtpHeader_valid h"
  then obtain bs where "PtpHeader_pack h = Inr bs"
    by (simp add: PtpHeader_valid_def PtpHeader_pack_def)
  with v show "\<exists>bs. PtpHeader_pack h = Inr bs \<and> PtpHeader_unpack bs = Inr h"
    by (auto dest: PtpHeader_unpack_pack)
next
  assume v: "cbw_valid c"
  then obtain bs where p: "MscCommandBlockWrapper_pack c = Inr bs"
    by (simp add: cbw_valid_def MscCommandBlockWrapper_pack_def)
  from v have "c\<lparr>cbw_signature := pack_str 4 (cbw_signature c),
                 cbw_command := pack_str 16 (cbw_command c)\<rparr> = c"
    by (simp add: cbw_valid_def pack_str_exact)
  with p show "\<exists>bs. MscCommandBlockWrapper_pack c = Inr bs \<and> MscCommandBlockWrapper_unpack bs = Inr c"
    using cbw_unpack_pack [OF p] by simp
next
  assume v: "csw_valid w"
  then obtain bs where p: "MscCommandStatusWrapper_pack w = Inr bs"
    by (simp add: csw_valid_def MscCommandStatusWrapper_pack_def)
  from v have "w\<lparr>csw_signature := pack_str 4 (csw_signature w)\<rparr> = w"
    by (simp add: csw_valid_def pack_str_exact)
  with p show "\<exists>bs. MscCommandStatusWrapper_pack w = Inr bs \<and> MscCommandStatusWrapper_unpack bs = Inr w"
    using csw_unpack_pack [OF p] by simp
qed

theorem codec_roundtrip_witness:
  "PtpHeader_valid \<lparr>ptp_size = 16, ptp_type = 1, ptp_code = 0x1001, ptp_transaction = 7\<rparr>
   \<and> PtpHeader_unpack [CHR 0x10, CHR 0x00, CHR 0x00, CHR 0x00, CHR 0x01, CHR 0x00, CHR 0x01, CHR 0x10,
        CHR 0x07, CHR 0x00, CHR 0x00, CHR 0x00]
      = Inr \<lparr>ptp_size = 16, ptp_type = 1, ptp_code = 0x1001, ptp_transaction = 7\<rparr>
   \<and> cbw_valid \<lparr>cbw_signature = ''USBC'', cbw_tag = 258, cbw_dataTransferLength = 18,
        cbw_flags = 0x80, cbw_lun = 0, cbw_commandLength = 6,
        cbw_command = [CHR 0x03, CHR 0x00, CHR 0x00, CHR 0x00, CHR 0x12, CHR 0x00] @ replicate 10 (CHR 0x00)\<rparr>
   \<and> MscCommandBlockWrapper_unpack (''USBC'' @ [CHR 0x02, CHR 0x01, CHR 0x00, CHR 0x00,
        CHR 0x12, CHR 0x00, CHR 0x00, CHR 0x00, CHR 0x80, CHR 0x00, CHR 0x06,
        CHR 0x03, CHR 0x00, CHR 0x00, CHR 0x00, CHR 0x12, CHR 0x00] @ replicate 10 (CHR 0x00))
      = Inr \<lparr>cbw_signature = ''USBC'', cbw_tag = 258, cbw_dataTransferLength = 18,
        cbw_flags = 0x80, cbw_lun = 0, cbw_commandLength = 6,
        cbw_command = [CHR 0x03, CHR 0x00, CHR 0x00, CHR 0x00, CHR 0x12, CHR 0x00] @ replicate 10 (CHR 0x00)\<rparr>
   \<and> csw_valid \<lparr>csw_signature = ''USBS'', csw_tag = 258, csw_dataResidue = 0, csw_status = 1\<rparr>
   \<and> MscCommandStatusWrapper_unpack (''USBS'' @ [CHR 0x02, CHR 0x01, CHR 0x00, CHR 0x00,
        CHR 0x00, CHR 0x00, CHR 0x00, CHR 0x00, CHR 0x01])
      = Inr \<lparr>csw_signature = ''USBS'', csw_tag = 258, csw_dataResidue = 0, csw_status = 1\<rparr>"
  using codec_roundtrip [of
      "\<lparr>ptp_size = 16, ptp_type = 1, ptp_code = 0x1001, ptp_transaction = 7\<rparr>"
      "\<lparr>cbw_signature = ''USBC'', cbw_tag = 258, cbw_dataTransferLength = 18,
        cbw_flags = 0x80, cbw_lun = 0, cbw_commandLength = 6,
        cbw_command = [CHR 0x03, CHR 0x00, CHR 0x00, CHR 0x00, CHR 0x12, CHR 0x00] @ replicate 10 (CHR 0x00)\<rparr>"
      "\<lparr>csw_signature = ''USBS'', csw_tag = 258, csw_dataResidue = 0, csw_status = 1\<rparr>"]
  by (simp add: PtpHeader_valid_def cbw_valid_def csw_valid_def fits_def
      PtpHeader_pack_def MscCommandBlockWrapper_pack_def MscCommandStatusWrapper_pack_def
      pack_str_def eval_nat_numeral char_of_def)

section \<open>The command block wrapper on the wire\<close>

lemma dump_le_4: "dump_le 4 v = le32_spec v"
proof -
  have "v div 256 div 256 = v div 65536" "v div 256 div 256 div 256 = v div 16777216"
    by (simp_all add: div_mult2_eq [symmetric])
  then show ?thesis
    by (simp add: eval_nat_numeral le32_spec_def)
qed

lemma dump_le_1: "dump_le (Suc 0) v = [char_of v]"
  by simp

lemma trace_write: "trace (snd (UsbDriver_write data s)) = trace s @ [DevWrite (epOut s) data]"
  by (simp add: UsbDriver_write_def dev_call_def split: usb_outcome.splits)

text \<open>
  C7: for every command of 1 to 16 bytes (and tag, data length, direction and lun within
  their widths), the command phase hands the device exactly one buffer of 31 bytes:
  the signature USBC, tag and data length as 32-bit little-endian integers, one byte each
  for flags, lun and the command's actual length, and the command bytes filled with zeros
  to 16 bytes.
\<close>

theorem writeCommand_wire_format:
  assumes "1 \<le> length command" and "length command \<le> 16"
    and "fits 4 tag" and "fits 4 dataSize" and "fits 1 direction" and "fits 1 lun"
  shows "MscDriver_writeCommand direction command dataSize tag lun s
           = UsbDriver_write (cbw_wire_spec tag dataSize direction lun command) s
         \<and> trace (snd (MscDriver_writeCommand direction command dataSize tag lun s))
           = trace s @ [DevWrite (epOut s) (cbw_wire_spec tag dataSize direction lun command)]
         \<and> length (cbw_wire_spec tag dataSize direction lun command) = 31"
proof -
  have len: "fits 1 (int (length command))"
    using assms(2) by (simp add: fits_def)
  have pad: "pack_str 16 (ljust 16 (CHR 0x00) command)
               = command @ replicate (16 - length command) (CHR 0x00)"
    using assms(2) by (simp add: pack_str_def ljust_def)
  have sig: "pack_str 4 ''USBC'' = ''USBC''"
    by (simp add: pack_str_def)
  have pk: "MscCommandBlockWrapper_pack
             \<lparr>cbw_signature = ''USBC'', cbw_tag = tag, cbw_dataTransferLength = dataSize,
              cbw_flags = direction, cbw_lun = lun, cbw_commandLength = int (length command),
              cbw_command = ljust 16 (CHR 0x00) command\<rparr>
           = Inr (cbw_wire_spec tag dataSize direction lun command)"
    using assms(3-6) len
    by (simp add: MscCommandBlockWrapper_pack_def pad sig dump_le_4 dump_le_1 cbw_wire_spec_def
        del: dump_le.simps)
  have w: "MscDriver_writeCommand direction command dataSize tag lun s
           = UsbDriver_write (cbw_wire_spec tag dataSize direction lun command) s"
    by (simp add: MscDriver_writeCommand_def pk)
  have l: "length (cbw_wire_spec tag dataSize direction lun command) = 31"
    using assms(2) by (simp add: cbw_wire_spec_def le32_spec_def)
  show ?thesis
    using w l by (simp add: trace_write)
qed

theorem writeCommand_wire_format_witness:
  "trace (snd (MscDriver_writeCommand 0x80 [CHR 0x03, CHR 0x00, CHR 0x00, CHR 0x00, CHR 0x12, CHR 0x00]
                 18 0 0 \<lparr>script = (\<lambda>i. Completes []), trace = [], epIn = 0x81, epOut = 0x02\<rparr>))
     = [DevWrite 0x02 (''USBC'' @ [CHR 0x00, CHR 0x00, CHR 0x00, CHR 0x00,
          CHR 0x12, CHR 0x00, CHR 0x00, CHR 0x00, CHR 0x80, CHR 0x00, CHR 0x06,
          CHR 0x03, CHR 0x00, CHR 0x00, CHR 0x00, CHR 0x12, CHR 0x00] @ replicate 10 (CHR 0x00))]"
  using writeCommand_wire_format [of "[CHR 0x03, CHR 0x00, CHR 0x00, CHR 0x00, CHR 0x12, CHR 0x00]"
      0 18 "0x80" 0 "\<lparr>script = (\<lambda>i. Completes []), trace = [], epIn = 0x81, epOut = 0x02\<rparr>"]
  by (simp add: fits_def cbw_wire_spec_def le32_spec_def char_of_def UsbDriver_write_def dev_call_def)

section \<open>The mass storage status phase\<close>

lemma UsbDriver_read_result:
  "UsbDriver_read n s =
     ((case script s (length (trace s)) of Raises_USBError \<Rightarrow> Inl USBError | Completes d \<Rightarrow> Inr d),
      s\<lparr>trace := trace s @ [DevRead (epIn s) n]\<rparr>)"
  by (simp add: UsbDriver_read_def dev_call_def split: usb_outcome.splits)

lemma UsbDriver_write_result:
  "UsbDriver_write data s =
     ((case script s (length (trace s)) of Raises_USBError \<Rightarrow> Inl USBError | Completes d \<Rightarrow> Inr ()),
      s\<lparr>trace := trace s @ [DevWrite (epOut s) data]\<rparr>)"
  by (simp add: UsbDriver_write_def dev_call_def split: usb_outcome.splits)

lemma UsbDriver_clear_halt_result:
  "UsbDriver_clear_halt ep s =
     ((case script s (length (trace s)) of Raises_USBError \<Rightarrow> Inl USBError | Completes d \<Rightarrow> Inr ()),
      s\<lparr>trace := trace s @ [DevClearHalt ep]\<rparr>)"
  by (simp add: UsbDriver_clear_halt_def dev_call_def split: usb_outcome.splits)

lemma requestSense_command_18: "requestSense_command 18 = Inr REQUEST_SENSE_BYTES"
  by (simp add: requestSense_command_def dump8_def fits_def MSC_OC_REQUEST_SENSE_def
      REQUEST_SENSE_BYTES_def char_of_def eval_nat_numeral)

lemma readResponse_True_state:
  "snd (MscDriver_readResponse p ok True s) = s\<lparr>trace := trace s @ [DevRead (epIn s) 13]\<rparr>"
  by (simp add: MscDriver_readResponse.simps UsbDriver_read_result
      MscCommandStatusWrapper_size_def split: usb_outcome.splits sum.splits)

lemma readResponse_True_result:
  "fst (MscDriver_readResponse p ok True s) = Inr sense \<Longrightarrow> sense = ok"
  by (simp add: MscDriver_readResponse.simps UsbDriver_read_result
      split: usb_outcome.splits sum.splits if_splits)


lemma cbw_pack_public:
  "fits 4 n \<Longrightarrow> length command \<le> 16 \<Longrightarrow> fits 1 d \<Longrightarrow>
   MscCommandBlockWrapper_pack
     \<lparr>cbw_signature = ''USBC'', cbw_tag = 0, cbw_dataTransferLength = n, cbw_flags = d,
      cbw_lun = 0, cbw_commandLength = int (length command),
      cbw_command = ljust 16 (CHR 0x00) command\<rparr>
   = Inr (cbw_wire_spec 0 n d 0 command)"
  by (simp add: MscCommandBlockWrapper_pack_def fits_def pack_str_def ljust_def dump_le_4
      dump_le_1 cbw_wire_spec_def del: dump_le.simps)

lemma sendReadCommand_True_written:
  assumes "fits 4 n" and "length command \<le> 16"
  shows "written (calls_since s (snd (MscDriver_sendReadCommand p ok command n True s)))
           = [cbw_wire_spec 0 n DIRECTION_READ 0 command]"
proof -
  have pk: "MscCommandBlockWrapper_pack
     \<lparr>cbw_signature = ''USBC'', cbw_tag = 0, cbw_dataTransferLength = n,
      cbw_flags = DIRECTION_READ,
      cbw_lun = 0, cbw_commandLength = int (length command),
      cbw_command = ljust 16 (CHR 0x00) command\<rparr>
   = Inr (cbw_wire_spec 0 n DIRECTION_READ 0 command)"
    using assms by (intro cbw_pack_public) (simp_all add: fits_def DIRECTION_READ_def)
  show ?thesis
    by (simp add: MscDriver_sendReadCommand.simps MscDriver_writeCommand_def pk
        UsbDriver_write_result UsbDriver_read_result UsbDriver_clear_halt_result
        MscDriver_readResponse.simps MscCommandStatusWrapper_size_def calls_since_def
        split: usb_outcome.splits sum.splits error.splits)
qed

text \<open>
  C3: once the status wrapper has been read and decoded, \<open>_readResponse\<close> raises
  "Wrong status signature" when the signature is not USBS; returns \<open>MSC_SENSE_OK\<close> with
  no further device call when the status byte is 0; raises "Mass storage error" at once
  when the status byte is not 0 and \<open>failOnError\<close> is true; and otherwise returns what
  one REQUEST SENSE read command (run with \<open>failOnError\<close> true) and the sense parser
  give, writing exactly one command block, the REQUEST SENSE one, on the way.
\<close>

theorem readResponse_status:
  assumes rd: "UsbDriver_read (int MscCommandStatusWrapper_size) s = (Inr raw, s1)"
    and un: "MscCommandStatusWrapper_unpack raw = Inr response"
  shows "(csw_signature response \<noteq> ''USBS'' \<longrightarrow>
            MscDriver_readResponse p ok f s = (Inl (Exception ''Wrong status signature''), s1))
       \<and> (csw_signature response = ''USBS'' \<and> csw_status response = 0 \<longrightarrow>
            MscDriver_readResponse p ok f s = (Inr ok, s1))
       \<and> (csw_signature response = ''USBS'' \<and> csw_status response \<noteq> 0 \<and> f \<longrightarrow>
            MscDriver_readResponse p ok f s = (Inl (Exception ''Mass storage error''), s1))
       \<and> (csw_signature response = ''USBS'' \<and> csw_status response \<noteq> 0 \<and> \<not> f \<longrightarrow>
            MscDriver_readResponse p ok f s =
              (case MscDriver_sendReadCommand p ok REQUEST_SENSE_BYTES 18 True s1 of
                 (Inl e, s2) \<Rightarrow> (Inl e, s2)
               | (Inr (r, data), s2) \<Rightarrow>
                   (case p data of Inl e \<Rightarrow> (Inl e, s2) | Inr sense \<Rightarrow> (Inr sense, s2)))
            \<and> written (calls_since s1 (snd (MscDriver_readResponse p ok f s)))
                = [cbw_wire_spec 0 18 DIRECTION_READ 0 REQUEST_SENSE_BYTES])
       \<and> calls_since s s1 = [DevRead (epIn s) 13]"
proof -
  have rs: "MscDriver_requestSense p ok s1 =
              (case MscDriver_sendReadCommand p ok REQUEST_SENSE_BYTES 18 True s1 of
                 (Inl e, s2) \<Rightarrow> (Inl e, s2)
               | (Inr (r, data), s2) \<Rightarrow>
                   (case p data of Inl e \<Rightarrow> (Inl e, s2) | Inr sense \<Rightarrow> (Inr sense, s2)))"
    by (simp add: MscDriver_requestSense.simps requestSense_command_18)
  have snd_rs: "snd (MscDriver_requestSense p ok s1)
                  = snd (MscDriver_sendReadCommand p ok REQUEST_SENSE_BYTES 18 True s1)"
    by (simp add: rs split: prod.splits sum.splits)
  have w: "written (calls_since s1 (snd (MscDriver_requestSense p ok s1)))
             = [cbw_wire_spec 0 18 DIRECTION_READ 0 REQUEST_SENSE_BYTES]"
    unfolding snd_rs
    by (rule sendReadCommand_True_written) (simp_all add: fits_def REQUEST_SENSE_BYTES_def)
  have s1: "s1 = s\<lparr>trace := trace s @ [DevRead (epIn s) 13]\<rparr>"
    using rd by (simp add: UsbDriver_read_result MscCommandStatusWrapper_size_def)
  have c: "calls_since s s1 = [DevRead (epIn s) 13]"
    by (simp add: s1 calls_since_def)
  have eq: "MscDriver_readResponse p ok f s =
              (if csw_signature response \<noteq> ''USBS''
               then (Inl (Exception ''Wrong status signature''), s1)
               else if csw_status response \<noteq> 0
               then (if f then (Inl (Exception ''Mass storage error''), s1)
                     else MscDriver_requestSense p ok s1)
               else (Inr ok, s1))"
    by (simp add: MscDriver_readResponse.simps [of p ok f s] rd un)
  show ?thesis
  proof (intro conjI impI)
    assume "csw_signature response \<noteq> ''USBS''"
    then show "MscDriver_readResponse p ok f s = (Inl (Exception ''Wrong status signature''), s1)"
      using eq by simp
  next
    assume "csw_signature response = ''USBS'' \<and> csw_status response = 0"
    then show "MscDriver_readResponse p ok f s = (Inr ok, s1)"
      using eq by simp
  next
    assume "csw_signature response = ''USBS'' \<and> csw_status response \<noteq> 0 \<and> f"
    then show "MscDriver_readResponse p ok f s = (Inl (Exception ''Mass storage error''), s1)"
      using eq by simp
  next
    assume a: "csw_signature response = ''USBS'' \<and> csw_status response \<noteq> 0 \<and> \<not> f"
    then have r: "MscDriver_readResponse p ok f s = MscDriver_requestSense p ok s1"
      using eq by simp
    show "MscDriver_readResponse p ok f s =
              (case MscDriver_sendReadCommand p ok REQUEST_SENSE_BYTES 18 True s1 of
                 (Inl e, s2) \<Rightarrow> (Inl e, s2)
               | (Inr (r, data), s2) \<Rightarrow>
                   (case p data of Inl e \<Rightarrow> (Inl e, s2) | Inr sense \<Rightarrow> (Inr sense, s2)))"
      unfolding r by (rule rs)
    show "written (calls_since s1 (snd (MscDriver_readResponse p ok f s)))
                = [cbw_wire_spec 0 18 DIRECTION_READ 0 REQUEST_SENSE_BYTES]"
      unfolding r by (rule w)
  next
    show "calls_since s s1 = [DevRead (epIn s) 13]"
      by (rule c)
  qed
qed

theorem readResponse_status_witness:
  "UsbDriver_read (int MscCommandStatusWrapper_size) sense_device
      = (Inr (csw_bytes 1), sense_device\<lparr>trace := [DevRead 0x81 13]\<rparr>)
   \<and> MscCommandStatusWrapper_unpack (csw_bytes 1)
        = Inr \<lparr>csw_signature = ''USBS'', csw_tag = 0, csw_dataResidue = 0, csw_status = 1\<rparr>
   \<and> MscDriver_readResponse parse_example [] False sense_device
        = (Inr (replicate 3 (CHR 0x05)),
           sense_device\<lparr>trace := [DevRead 0x81 13,
              DevWrite 0x02 (cbw_wire_spec 0 18 0x80 0 REQUEST_SENSE_BYTES),
              DevRead 0x81 18, DevRead 0x81 13]\<rparr>)"
proof -
  have rd: "UsbDriver_read (int MscCommandStatusWrapper_size) sense_device
      = (Inr (csw_bytes 1), sense_device\<lparr>trace := [DevRead 0x81 13]\<rparr>)"
    by (simp add: UsbDriver_read_result sense_device_def MscCommandStatusWrapper_size_def)
  have un: "MscCommandStatusWrapper_unpack (csw_bytes 1)
        = Inr \<lparr>csw_signature = ''USBS'', csw_tag = 0, csw_dataResidue = 0, csw_status = 1\<rparr>"
    by (simp add: MscCommandStatusWrapper_unpack_def csw_bytes_def field_def
        MscCommandStatusWrapper_size_def eval_nat_numeral char_of_def)
  have un0: "MscCommandStatusWrapper_unpack (csw_bytes 0)
        = Inr \<lparr>csw_signature = ''USBS'', csw_tag = 0, csw_dataResidue = 0, csw_status = 0\<rparr>"
    by (simp add: MscCommandStatusWrapper_unpack_def csw_bytes_def field_def
        MscCommandStatusWrapper_size_def eval_nat_numeral char_of_def)
  have pk: "MscCommandBlockWrapper_pack
     \<lparr>cbw_signature = ''USBC'', cbw_tag = 0, cbw_dataTransferLength = 18,
      cbw_flags = DIRECTION_READ,
      cbw_lun = 0, cbw_commandLength = int (length REQUEST_SENSE_BYTES),
      cbw_command = ljust 16 (CHR 0x00) REQUEST_SENSE_BYTES\<rparr>
   = Inr (cbw_wire_spec 0 18 0x80 0 REQUEST_SENSE_BYTES)"
    using cbw_pack_public [of 18 REQUEST_SENSE_BYTES 128]
    by (simp add: fits_def REQUEST_SENSE_BYTES_def DIRECTION_READ_def)
  have sr: "MscDriver_sendReadCommand parse_example [] REQUEST_SENSE_BYTES 18 True
              (sense_device\<lparr>trace := [DevRead 0x81 13]\<rparr>)
            = (Inr ([], Some (replicate 18 (CHR 0x05))),
               sense_device\<lparr>trace := [DevRead 0x81 13,
              DevWrite 0x02 (cbw_wire_spec 0 18 0x80 0 REQUEST_SENSE_BYTES),
              DevRead 0x81 18, DevRead 0x81 13]\<rparr>)"
    by (simp add: MscDriver_sendReadCommand.simps MscDriver_writeCommand_def pk
        UsbDriver_write_result UsbDriver_read_result MscDriver_readResponse.simps
        MscCommandStatusWrapper_size_def sense_device_def un0)
  show ?thesis
    using readResponse_status [OF rd un, of parse_example "[]" False] rd un
    by (simp add: sr parse_example_def)
qed

section \<open>Stalled data phases\<close>

lemma epOut_write: "UsbDriver_write data s = (r, s') \<Longrightarrow> epOut s' = epOut s \<and> epIn s' = epIn s"
  by (auto simp add: UsbDriver_write_result)

lemma epIn_read: "UsbDriver_read n s = (r, s') \<Longrightarrow> epOut s' = epOut s \<and> epIn s' = epIn s"
  by (auto simp add: UsbDriver_read_result)

lemma ep_writeCommand:
  "MscDriver_writeCommand d c n t l s = (r, s') \<Longrightarrow> epOut s' = epOut s \<and> epIn s' = epIn s"
  by (auto simp add: MscDriver_writeCommand_def UsbDriver_write_result split: sum.splits)

text \<open>
  C4: in \<open>sendWriteCommand\<close> and in \<open>sendReadCommand\<close>, when the command block went out,
  the data transfer raised \<open>USBError\<close> and the halt could be cleared, the calls made after
  the command phase are the transfer and the clearing of the halt on that endpoint, and the
  status phase is read next; if it gives \<open>MSC_SENSE_OK\<close> the call raises
  "Mass storage write error" (or "Mass storage read error"), which is neither the value
  \<open>MSC_SENSE_OK\<close> nor the "Mass storage error" of a reported device error.
\<close>

theorem stall_with_ok_status_fails:
  "(MscDriver_writeCommand DIRECTION_WRITE command (int (length data)) 0 0 s = (Inr (), s1)
    \<and> UsbDriver_write data s1 = (Inl USBError, s2)
    \<and> UsbDriver_clear_halt (epOut s2) s2 = (Inr (), s3)
    \<longrightarrow> calls_since s1 s3 = [DevWrite (epOut s) data, DevClearHalt (epOut s)]
      \<and> MscDriver_sendWriteCommand p ok command data f s =
          (case MscDriver_readResponse p ok f s3 of
             (Inl e, s4) \<Rightarrow> (Inl e, s4)
           | (Inr sense, s4) \<Rightarrow>
               if sense = ok then (Inl (Exception ''Mass storage write error''), s4)
               else (Inr sense, s4))
      \<and> (\<forall>s4. MscDriver_readResponse p ok f s3 = (Inr ok, s4) \<longrightarrow>
            MscDriver_sendWriteCommand p ok command data f s
              = (Inl (Exception ''Mass storage write error''), s4)
            \<and> fst (MscDriver_sendWriteCommand p ok command data f s)
              \<noteq> Inl (Exception ''Mass storage error'')
            \<and> fst (MscDriver_sendWriteCommand p ok command data f s) \<noteq> Inr ok))
   \<and> (MscDriver_writeCommand DIRECTION_READ command sz 0 0 s = (Inr (), s1)
    \<and> UsbDriver_read sz s1 = (Inl USBError, s2)
    \<and> UsbDriver_clear_halt (epIn s2) s2 = (Inr (), s3)
    \<longrightarrow> calls_since s1 s3 = [DevRead (epIn s) sz, DevClearHalt (epIn s)]
      \<and> MscDriver_sendReadCommand p ok command sz f s =
          (case MscDriver_readResponse p ok f s3 of
             (Inl e, s4) \<Rightarrow> (Inl e, s4)
           | (Inr sense, s4) \<Rightarrow>
               if sense = ok then (Inl (Exception ''Mass storage read error''), s4)
               else (Inr (sense, None), s4))
      \<and> (\<forall>s4. MscDriver_readResponse p ok f s3 = (Inr ok, s4) \<longrightarrow>
            MscDriver_sendReadCommand p ok command sz f s
              = (Inl (Exception ''Mass storage read error''), s4)
            \<and> fst (MscDriver_sendReadCommand p ok command sz f s)
              \<noteq> Inl (Exception ''Mass storage error'')))"
proof (intro conjI impI)
  assume a: "MscDriver_writeCommand DIRECTION_WRITE command (int (length data)) 0 0 s = (Inr (), s1)
    \<and> UsbDriver_write data s1 = (Inl USBError, s2)
    \<and> UsbDriver_clear_halt (epOut s2) s2 = (Inr (), s3)"
  have e1: "epOut s1 = epOut s" using a ep_writeCommand by blast
  have s2: "s2 = s1\<lparr>trace := trace s1 @ [DevWrite (epOut s) data]\<rparr>"
    using a e1 by (simp add: UsbDriver_write_result)
  have s3: "s3 = s1\<lparr>trace := trace s1 @ [DevWrite (epOut s) data, DevClearHalt (epOut s)]\<rparr>"
    using a e1 by (simp add: UsbDriver_clear_halt_result s2)
  show "calls_since s1 s3 = [DevWrite (epOut s) data, DevClearHalt (epOut s)]"
    by (simp add: s3 calls_since_def)
  show eq: "MscDriver_sendWriteCommand p ok command data f s =
          (case MscDriver_readResponse p ok f s3 of
             (Inl e, s4) \<Rightarrow> (Inl e, s4)
           | (Inr sense, s4) \<Rightarrow>
               if sense = ok then (Inl (Exception ''Mass storage write error''), s4)
               else (Inr sense, s4))"
    using a by (simp add: MscDriver_sendWriteCommand_def split: prod.splits sum.splits)
  show "\<forall>s4. MscDriver_readResponse p ok f s3 = (Inr ok, s4) \<longrightarrow>
            MscDriver_sendWriteCommand p ok command data f s
              = (Inl (Exception ''Mass storage write error''), s4)
            \<and> fst (MscDriver_sendWriteCommand p ok command data f s)
              \<noteq> Inl (Exception ''Mass storage error'')
            \<and> fst (MscDriver_sendWriteCommand p ok command data f s) \<noteq> Inr ok"
    by (simp add: eq)
next
  assume a: "MscDriver_writeCommand DIRECTION_READ command sz 0 0 s = (Inr (), s1)
    \<and> UsbDriver_read sz s1 = (Inl USBError, s2)
    \<and> UsbDriver_clear_halt (epIn s2) s2 = (Inr (), s3)"
  have e1: "epIn s1 = epIn s" using a ep_writeCommand by blast
  have s2: "s2 = s1\<lparr>trace := trace s1 @ [DevRead (epIn s) sz]\<rparr>"
    using a e1 by (simp add: UsbDriver_read_result)
  have s3: "s3 = s1\<lparr>trace := trace s1 @ [DevRead (epIn s) sz, DevClearHalt (epIn s)]\<rparr>"
    using a e1 by (simp add: UsbDriver_clear_halt_result s2)
  show "calls_since s1 s3 = [DevRead (epIn s) sz, DevClearHalt (epIn s)]"
    by (simp add: s3 calls_since_def)
  show eq: "MscDriver_sendReadCommand p ok command sz f s =
          (case MscDriver_readResponse p ok f s3 of
             (Inl e, s4) \<Rightarrow> (Inl e, s4)
           | (Inr sense, s4) \<Rightarrow>
               if sense = ok then (Inl (Exception ''Mass storage read error''), s4)
               else (Inr (sense, None), s4))"
    using a by (simp add: MscDriver_sendReadCommand.simps [of p ok command sz f s] split: prod.splits sum.splits)
  show "\<forall>s4. MscDriver_readResponse p ok f s3 = (Inr ok, s4) \<longrightarrow>
            MscDriver_sendReadCommand p ok command sz f s
              = (Inl (Exception ''Mass storage read error''), s4)
            \<and> fst (MscDriver_sendReadCommand p ok command sz f s)
              \<noteq> Inl (Exception ''Mass storage error'')"
    by (simp add: eq)
qed


theorem stall_with_ok_status_fails_witness:
  "MscDriver_sendWriteCommand parse_example [] [CHR 0x2A] ''abc'' False stall_device
     = (Inl (Exception ''Mass storage write error''),
        stall_device\<lparr>trace := [DevWrite 0x02 (cbw_wire_spec 0 3 0 0 [CHR 0x2A]),
           DevWrite 0x02 ''abc'', DevClearHalt 0x02, DevRead 0x81 13]\<rparr>)
   \<and> MscDriver_sendReadCommand parse_example [] [CHR 0x28] 512 False stall_device
     = (Inl (Exception ''Mass storage read error''),
        stall_device\<lparr>trace := [DevWrite 0x02 (cbw_wire_spec 0 512 0x80 0 [CHR 0x28]),
           DevRead 0x81 512, DevClearHalt 0x81, DevRead 0x81 13]\<rparr>)"
proof -
  have un0: "MscCommandStatusWrapper_unpack (csw_bytes 0)
        = Inr \<lparr>csw_signature = ''USBS'', csw_tag = 0, csw_dataResidue = 0, csw_status = 0\<rparr>"
    by (simp add: MscCommandStatusWrapper_unpack_def csw_bytes_def field_def
        MscCommandStatusWrapper_size_def eval_nat_numeral char_of_def)
  let ?w1 = "stall_device\<lparr>trace := [DevWrite 0x02 (cbw_wire_spec 0 3 0 0 [CHR 0x2A])]\<rparr>"
  let ?w2 = "stall_device\<lparr>trace := [DevWrite 0x02 (cbw_wire_spec 0 3 0 0 [CHR 0x2A]),
           DevWrite 0x02 ''abc'']\<rparr>"
  let ?w3 = "stall_device\<lparr>trace := [DevWrite 0x02 (cbw_wire_spec 0 3 0 0 [CHR 0x2A]),
           DevWrite 0x02 ''abc'', DevClearHalt 0x02]\<rparr>"
  let ?w4 = "stall_device\<lparr>trace := [DevWrite 0x02 (cbw_wire_spec 0 3 0 0 [CHR 0x2A]),
           DevWrite 0x02 ''abc'', DevClearHalt 0x02, DevRead 0x81 13]\<rparr>"
  have a1: "MscDriver_writeCommand DIRECTION_WRITE [CHR 0x2A] (int (length ''abc'')) 0 0 stall_device
              = (Inr (), ?w1)"
    using cbw_pack_public [of 3 "[CHR 0x2A]" 0]
    by (simp add: MscDriver_writeCommand_def DIRECTION_WRITE_def fits_def UsbDriver_write_result
        stall_device_def)
  have a2: "UsbDriver_write ''abc'' ?w1 = (Inl USBError, ?w2)"
    by (simp add: UsbDriver_write_result stall_device_def)
  have a3: "UsbDriver_clear_halt (epOut ?w2) ?w2 = (Inr (), ?w3)"
    by (simp add: UsbDriver_clear_halt_result stall_device_def)
  have a4: "MscDriver_readResponse parse_example [] False ?w3 = (Inr [], ?w4)"
    by (simp add: MscDriver_readResponse.simps UsbDriver_read_result stall_device_def un0
        MscCommandStatusWrapper_size_def)
  let ?r1 = "stall_device\<lparr>trace := [DevWrite 0x02 (cbw_wire_spec 0 512 0x80 0 [CHR 0x28])]\<rparr>"
  let ?r2 = "stall_device\<lparr>trace := [DevWrite 0x02 (cbw_wire_spec 0 512 0x80 0 [CHR 0x28]),
           DevRead 0x81 512]\<rparr>"
  let ?r3 = "stall_device\<lparr>trace := [DevWrite 0x02 (cbw_wire_spec 0 512 0x80 0 [CHR 0x28]),
           DevRead 0x81 512, DevClearHalt 0x81]\<rparr>"
  let ?r4 = "stall_device\<lparr>trace := [DevWrite 0x02 (cbw_wire_spec 0 512 0x80 0 [CHR 0x28]),
           DevRead 0x81 512, DevClearHalt 0x81, DevRead 0x81 13]\<rparr>"
  have b1: "MscDriver_writeCommand DIRECTION_READ [CHR 0x28] 512 0 0 stall_device = (Inr (), ?r1)"
    using cbw_pack_public [of 512 "[CHR 0x28]" "0x80"]
    by (simp add: MscDriver_writeCommand_def DIRECTION_READ_def fits_def UsbDriver_write_result
        stall_device_def)
  have b2: "UsbDriver_read 512 ?r1 = (Inl USBError, ?r2)"
    by (simp add: UsbDriver_read_result stall_device_def)
  have b3: "UsbDriver_clear_halt (epIn ?r2) ?r2 = (Inr (), ?r3)"
    by (simp add: UsbDriver_clear_halt_result stall_device_def)
  have b4: "MscDriver_readResponse parse_example [] False ?r3 = (Inr [], ?r4)"
    by (simp add: MscDriver_readResponse.simps UsbDriver_read_result stall_device_def un0
        MscCommandStatusWrapper_size_def)
  from stall_with_ok_status_fails [where command = "[CHR 0x2A]" and data = "''abc''"
      and s = stall_device and ?s1.0 = ?w1 and ?s2.0 = ?w2 and ?s3.0 = ?w3
      and p = parse_example and ok = "[]" and f = False] a1 a2 a3 a4
  have w: "MscDriver_sendWriteCommand parse_example [] [CHR 0x2A] ''abc'' False stall_device
     = (Inl (Exception ''Mass storage write error''), ?w4)"
    by blast
  from stall_with_ok_status_fails [where command = "[CHR 0x28]" and sz = 512
      and s = stall_device and ?s1.0 = ?r1 and ?s2.0 = ?r2 and ?s3.0 = ?r3
      and p = parse_example and ok = "[]" and f = False] b1 b2 b3 b4
  have r: "MscDriver_sendReadCommand parse_example [] [CHR 0x28] 512 False stall_device
     = (Inl (Exception ''Mass storage read error''), ?r4)"
    by blast
  from w r show ?thesis by simp
qed

section \<open>Data returned by a stalled read\<close>

text \<open>
  C10: whenever \<open>sendReadCommand\<close> returns a pair, the command phase had completed; if the
  data read then raised \<open>USBError\<close>, the data of the pair is \<open>None\<close>, the sense value is
  not \<open>MSC_SENSE_OK\<close> and \<open>failOnError\<close> was false; and the data is a byte string
  exactly when the read completed, with the bytes the read delivered.
\<close>

theorem stalled_read_returns_None:
  assumes ret: "MscDriver_sendReadCommand p ok command sz f s = (Inr (sense, data), s')"
    and cmd: "MscDriver_writeCommand DIRECTION_READ command sz 0 0 s = (r1, s1)"
  shows "r1 = Inr ()
         \<and> (fst (UsbDriver_read sz s1) = Inl USBError \<longrightarrow> data = None \<and> sense \<noteq> ok \<and> \<not> f)
         \<and> (\<forall>d. data = Some d \<longleftrightarrow> fst (UsbDriver_read sz s1) = Inr d)"
proof -
  have r1: "r1 = Inr ()"
    using ret cmd
    by (cases r1) (simp_all add: MscDriver_sendReadCommand.simps [of p ok command sz f s])
  show ?thesis
  proof (cases "fst (UsbDriver_read sz s1)")
    case (Inl e)
    then have e: "e = USBError"
      by (simp add: UsbDriver_read_result split: usb_outcome.splits)
    obtain s2 where rd: "UsbDriver_read sz s1 = (Inl USBError, s2)"
      using Inl e by (cases "UsbDriver_read sz s1") simp
    have key: "sense = ok" if "MscDriver_readResponse p ok f s3 = (Inr sense, s4)" and f
      for s3 s4
    proof -
      from that have "fst (MscDriver_readResponse p ok True s3) = Inr sense" by simp
      then show ?thesis by (rule readResponse_True_result)
    qed
    from ret cmd r1 rd have "data = None \<and> sense \<noteq> ok \<and> \<not> f"
      by (auto simp add: MscDriver_sendReadCommand.simps [of p ok command sz f s]
          split: prod.splits sum.splits if_splits dest: key)
    with Inl e r1 show ?thesis by simp
  next
    case (Inr d0)
    obtain s2 where rd: "UsbDriver_read sz s1 = (Inr d0, s2)"
      using Inr by (cases "UsbDriver_read sz s1") simp
    from ret cmd r1 rd have "data = Some d0"
      by (auto simp add: MscDriver_sendReadCommand.simps [of p ok command sz f s]
          split: prod.splits sum.splits if_splits)
    with Inr r1 show ?thesis by auto
  qed
qed


theorem stalled_read_returns_None_witness:
  "MscDriver_sendReadCommand parse_example [] [CHR 0x28] 512 False stall_sense_device
     = (Inr (replicate 3 (CHR 0x05), None),
        stall_sense_device\<lparr>trace := [DevWrite 0x02 (cbw_wire_spec 0 512 0x80 0 [CHR 0x28]),
           DevRead 0x81 512, DevClearHalt 0x81, DevRead 0x81 13,
           DevWrite 0x02 (cbw_wire_spec 0 18 0x80 0 REQUEST_SENSE_BYTES),
           DevRead 0x81 18, DevRead 0x81 13]\<rparr>)
   \<and> fst (UsbDriver_read 512
        (stall_sense_device\<lparr>trace := [DevWrite 0x02 (cbw_wire_spec 0 512 0x80 0 [CHR 0x28])]\<rparr>))
       = Inl USBError
   \<and> (\<forall>d. fst (UsbDriver_read 512
        (stall_sense_device\<lparr>trace := [DevWrite 0x02 (cbw_wire_spec 0 512 0x80 0 [CHR 0x28])]\<rparr>))
       \<noteq> Inr d)"
proof -
  have un0: "MscCommandStatusWrapper_unpack (csw_bytes 0)
        = Inr \<lparr>csw_signature = ''USBS'', csw_tag = 0, csw_dataResidue = 0, csw_status = 0\<rparr>"
    by (simp add: MscCommandStatusWrapper_unpack_def csw_bytes_def field_def
        MscCommandStatusWrapper_size_def eval_nat_numeral char_of_def)
  have un1: "MscCommandStatusWrapper_unpack (csw_bytes 1)
        = Inr \<lparr>csw_signature = ''USBS'', csw_tag = 0, csw_dataResidue = 0, csw_status = 1\<rparr>"
    by (simp add: MscCommandStatusWrapper_unpack_def csw_bytes_def field_def
        MscCommandStatusWrapper_size_def eval_nat_numeral char_of_def)
  have pk1: "MscCommandBlockWrapper_pack
     \<lparr>cbw_signature = ''USBC'', cbw_tag = 0, cbw_dataTransferLength = 512,
      cbw_flags = DIRECTION_READ, cbw_lun = 0, cbw_commandLength = int (length [CHR 0x28]),
      cbw_command = ljust 16 (CHR 0x00) [CHR 0x28]\<rparr>
   = Inr (cbw_wire_spec 0 512 0x80 0 [CHR 0x28])"
    using cbw_pack_public [of 512 "[CHR 0x28]" 128]
    by (simp add: fits_def DIRECTION_READ_def)
  have pk2: "MscCommandBlockWrapper_pack
     \<lparr>cbw_signature = ''USBC'', cbw_tag = 0, cbw_dataTransferLength = 18,
      cbw_flags = DIRECTION_READ, cbw_lun = 0,
      cbw_commandLength = int (length REQUEST_SENSE_BYTES),
      cbw_command = ljust 16 (CHR 0x00) REQUEST_SENSE_BYTES\<rparr>
   = Inr (cbw_wire_spec 0 18 0x80 0 REQUEST_SENSE_BYTES)"
    using cbw_pack_public [of 18 REQUEST_SENSE_BYTES 128]
    by (simp add: fits_def REQUEST_SENSE_BYTES_def DIRECTION_READ_def)
  let ?s1 = "stall_sense_device\<lparr>trace := [DevWrite 0x02 (cbw_wire_spec 0 512 0x80 0 [CHR 0x28])]\<rparr>"
  have cmd: "MscDriver_writeCommand DIRECTION_READ [CHR 0x28] 512 0 0 stall_sense_device
               = (Inr (), ?s1)"
    using pk1
    by (simp add: MscDriver_writeCommand_def UsbDriver_write_result stall_sense_device_def)
  have ret: "MscDriver_sendReadCommand parse_example [] [CHR 0x28] 512 False stall_sense_device
     = (Inr (replicate 3 (CHR 0x05), None),
        stall_sense_device\<lparr>trace := [DevWrite 0x02 (cbw_wire_spec 0 512 0x80 0 [CHR 0x28]),
           DevRead 0x81 512, DevClearHalt 0x81, DevRead 0x81 13,
           DevWrite 0x02 (cbw_wire_spec 0 18 0x80 0 REQUEST_SENSE_BYTES),
           DevRead 0x81 18, DevRead 0x81 13]\<rparr>)"
    using pk1
    by (simp add: MscDriver_sendReadCommand.simps MscDriver_requestSense.simps
        MscDriver_readResponse.simps requestSense_command_18
        MscDriver_writeCommand_def pk2 UsbDriver_write_result UsbDriver_read_result
        UsbDriver_clear_halt_result MscCommandStatusWrapper_size_def stall_sense_device_def
        un0 un1 parse_example_def)
  have stall: "fst (UsbDriver_read 512 ?s1) = Inl USBError"
    by (simp add: UsbDriver_read_result stall_sense_device_def)
  from stalled_read_returns_None [OF ret cmd] stall ret show ?thesis
    by simp
qed

section \<open>Tag and lun of the command blocks of the public operations\<close>

lemma written_append: "written (a @ b) = written a @ written b"
  by (induction a rule: written.induct) simp_all

lemma extends_refl: "extends s s"
  by (simp add: extends_def)

lemma extends_append: "extends s (s\<lparr>trace := trace s @ seg\<rparr>)"
  by (simp add: extends_def)

lemma extends_trace: "extends s s' \<Longrightarrow> trace s' = trace s @ calls_since s s'"
  unfolding extends_def calls_since_def
  by (metis append_take_drop_id)

lemma calls_since_trans:
  assumes a: "extends s s1" and b: "extends s1 s2"
  shows "extends s s2 \<and> calls_since s s2 = calls_since s s1 @ calls_since s1 s2"
proof -
  define u where "u = calls_since s s1"
  define v where "v = calls_since s1 s2"
  have t: "trace s2 = trace s @ u @ v"
    using extends_trace [OF a] extends_trace [OF b] by (simp add: u_def v_def)
  have e: "extends s s2"
    by (simp add: extends_def t)
  have "calls_since s s2 = u @ v"
    by (simp add: calls_since_def [of s s2] t)
  with e show ?thesis
    by (simp add: u_def v_def)
qed

lemma extends_trans: "extends s s1 \<Longrightarrow> extends s1 s2 \<Longrightarrow> extends s s2"
  by (rule calls_since_trans [THEN conjunct1])

lemma wrote_trans: "extends s s1 \<Longrightarrow> extends s1 s2 \<Longrightarrow> wrote s s2 = wrote s s1 @ wrote s1 s2"
  by (simp only: wrote_def calls_since_trans [THEN conjunct2] written_append)

lemma wrote_refl: "wrote s s = []"
  by (simp add: wrote_def calls_since_def)

lemma wrote_append: "wrote s (s\<lparr>trace := trace s @ seg\<rparr>) = written seg"
  by (simp add: wrote_def calls_since_def)

lemma cbw_tag_lun_pack:
  "MscCommandBlockWrapper_pack c = Inr bs \<Longrightarrow> cbw_tag_lun bs = Some (cbw_tag c, cbw_lun c)"
  by (simp add: cbw_tag_lun_def cbw_unpack_pack)

lemma cbw_tag_lun_request_sense:
  "cbw_tag_lun (cbw_wire_spec 0 18 DIRECTION_READ 0 REQUEST_SENSE_BYTES) = Some (0, 0)"
proof -
  have "MscCommandBlockWrapper_pack
     \<lparr>cbw_signature = ''USBC'', cbw_tag = 0, cbw_dataTransferLength = 18,
      cbw_flags = DIRECTION_READ, cbw_lun = 0,
      cbw_commandLength = int (length REQUEST_SENSE_BYTES),
      cbw_command = ljust 16 (CHR 0x00) REQUEST_SENSE_BYTES\<rparr>
   = Inr (cbw_wire_spec 0 18 DIRECTION_READ 0 REQUEST_SENSE_BYTES)"
    by (rule cbw_pack_public) (simp_all add: fits_def REQUEST_SENSE_BYTES_def DIRECTION_READ_def)
  from cbw_tag_lun_pack [OF this] show ?thesis by simp
qed

lemma writeCommand_wrote:
  assumes "MscDriver_writeCommand d c n 0 0 s = (r1, s1)"
  shows "extends s s1
         \<and> (wrote s s1 = [] \<and> isl r1 \<or> (\<exists>bs. wrote s s1 = [bs] \<and> cbw_tag_lun bs = Some (0, 0)))"
proof (cases "MscCommandBlockWrapper_pack
             \<lparr>cbw_signature = ''USBC'', cbw_tag = 0, cbw_dataTransferLength = n,
              cbw_flags = d, cbw_lun = 0, cbw_commandLength = int (length c),
              cbw_command = ljust 16 (CHR 0x00) c\<rparr>")
  case (Inl e)
  with assms show ?thesis
    by (auto simp add: MscDriver_writeCommand_def extends_refl wrote_refl)
next
  case (Inr bs)
  from cbw_tag_lun_pack [OF Inr] have t: "cbw_tag_lun bs = Some (0, 0)" by simp
  from assms Inr have "s1 = s\<lparr>trace := trace s @ [DevWrite (epOut s) bs]\<rparr>"
    by (auto simp add: MscDriver_writeCommand_def UsbDriver_write_result)
  with t show ?thesis
    by (simp add: extends_append wrote_append)
qed

lemma sendReadCommand_True_extends:
  "extends s (snd (MscDriver_sendReadCommand p ok command n True s))"
  by (simp add: MscDriver_sendReadCommand.simps MscDriver_writeCommand_def
        UsbDriver_write_result UsbDriver_read_result UsbDriver_clear_halt_result
        MscDriver_readResponse.simps MscCommandStatusWrapper_size_def extends_def
        split: usb_outcome.splits sum.splits error.splits)

lemma readResponse_wrote:
  "extends s (snd (MscDriver_readResponse p ok f s))
   \<and> wrote s (snd (MscDriver_readResponse p ok f s))
       \<in> {[], [cbw_wire_spec 0 18 DIRECTION_READ 0 REQUEST_SENSE_BYTES]}"
proof -
  let ?s1 = "s\<lparr>trace := trace s @ [DevRead (epIn s) 13]\<rparr>"
  let ?s2 = "snd (MscDriver_sendReadCommand p ok REQUEST_SENSE_BYTES 18 True ?s1)"
  have a: "extends s ?s1" and aw: "wrote s ?s1 = []"
    by (simp_all add: extends_append wrote_append)
  have b: "extends ?s1 ?s2"
    by (rule sendReadCommand_True_extends)
  have bw: "wrote ?s1 ?s2 = [cbw_wire_spec 0 18 DIRECTION_READ 0 REQUEST_SENSE_BYTES]"
    unfolding wrote_def
    by (rule sendReadCommand_True_written) (simp_all add: fits_def REQUEST_SENSE_BYTES_def)
  have rs: "snd (MscDriver_requestSense p ok ?s1) = ?s2"
    by (simp add: MscDriver_requestSense.simps requestSense_command_18
        split: prod.splits sum.splits)
  have c: "snd (MscDriver_readResponse p ok f s) = ?s1
           \<or> snd (MscDriver_readResponse p ok f s) = ?s2"
    by (simp add: MscDriver_readResponse.simps [of p ok f s] UsbDriver_read_result
        MscCommandStatusWrapper_size_def rs split: usb_outcome.splits sum.splits)
  from c show ?thesis
  proof
    assume "snd (MscDriver_readResponse p ok f s) = ?s1"
    with a aw show ?thesis by simp
  next
    assume e: "snd (MscDriver_readResponse p ok f s) = ?s2"
    have "extends s ?s2" using a b by (rule extends_trans)
    moreover have "wrote s ?s2 = [cbw_wire_spec 0 18 DIRECTION_READ 0 REQUEST_SENSE_BYTES]"
      using wrote_trans [OF a b] aw bw by simp
    ultimately show ?thesis using e by simp
  qed
qed

lemma readResponse_after:
  assumes e: "extends s s1"
  shows "wrote s (snd (MscDriver_readResponse p ok f s1)) = wrote s s1
         \<or> wrote s (snd (MscDriver_readResponse p ok f s1))
             = wrote s s1 @ [cbw_wire_spec 0 18 DIRECTION_READ 0 REQUEST_SENSE_BYTES]"
proof -
  have "extends s1 (snd (MscDriver_readResponse p ok f s1))"
    by (rule readResponse_wrote [THEN conjunct1])
  from wrote_trans [OF e this] readResponse_wrote [of s1 p ok f]
  show ?thesis by auto
qed

lemma sendReadCommand_data_phase:
  assumes wc: "MscDriver_writeCommand DIRECTION_READ command sz 0 0 s = (r1, s1)"
  shows "\<exists>s3. extends s1 s3 \<and> wrote s1 s3 = []
           \<and> (snd (MscDriver_sendReadCommand p ok command sz f s) = s3
              \<or> snd (MscDriver_sendReadCommand p ok command sz f s)
                  = snd (MscDriver_readResponse p ok f s3))"
proof (cases r1)
  case (Inl e)
  with wc have "snd (MscDriver_sendReadCommand p ok command sz f s) = s1"
    by (simp add: MscDriver_sendReadCommand.simps [of p ok command sz f s])
  then show ?thesis
    using extends_refl wrote_refl by blast
next
  case (Inr u)
  show ?thesis
  proof (cases "script s1 (length (trace s1))")
    case (Completes d)
    let ?s3 = "s1\<lparr>trace := trace s1 @ [DevRead (epIn s1) sz]\<rparr>"
    have "snd (MscDriver_sendReadCommand p ok command sz f s)
            = snd (MscDriver_readResponse p ok f ?s3)"
      using wc Inr Completes
      by (simp add: MscDriver_sendReadCommand.simps [of p ok command sz f s]
          UsbDriver_read_result split: prod.splits sum.splits)
    moreover have "extends s1 ?s3" "wrote s1 ?s3 = []"
      by (simp_all add: extends_append wrote_append)
    ultimately show ?thesis by blast
  next
    case Raises_USBError
    let ?s2 = "s1\<lparr>trace := trace s1 @ [DevRead (epIn s1) sz]\<rparr>"
    let ?s3 = "s1\<lparr>trace := trace s1 @ [DevRead (epIn s1) sz, DevClearHalt (epIn s1)]\<rparr>"
    have "snd (MscDriver_sendReadCommand p ok command sz f s) = ?s3
          \<or> snd (MscDriver_sendReadCommand p ok command sz f s)
            = snd (MscDriver_readResponse p ok f ?s3)"
      using wc Inr Raises_USBError
      by (simp add: MscDriver_sendReadCommand.simps [of p ok command sz f s]
          UsbDriver_read_result UsbDriver_clear_halt_result
          split: prod.splits sum.splits usb_outcome.splits)
    moreover have "extends s1 ?s3" "wrote s1 ?s3 = []"
      by (simp_all add: extends_append wrote_append)
    ultimately show ?thesis by blast
  qed
qed

lemma sendWriteCommand_data_phase:
  assumes wc: "MscDriver_writeCommand DIRECTION_WRITE command (int (length data)) 0 0 s = (Inr u, s1)"
  shows "\<exists>s3. extends s1 s3 \<and> wrote s1 s3 = [data]
           \<and> (snd (MscDriver_sendWriteCommand p ok command data f s) = s3
              \<or> snd (MscDriver_sendWriteCommand p ok command data f s)
                  = snd (MscDriver_readResponse p ok f s3))"
proof (cases "script s1 (length (trace s1))")
  case (Completes d)
  let ?s3 = "s1\<lparr>trace := trace s1 @ [DevWrite (epOut s1) data]\<rparr>"
  have "snd (MscDriver_sendWriteCommand p ok command data f s)
          = snd (MscDriver_readResponse p ok f ?s3)"
    using wc Completes
    by (simp add: MscDriver_sendWriteCommand_def UsbDriver_write_result
        split: prod.splits sum.splits)
  moreover have "extends s1 ?s3" "wrote s1 ?s3 = [data]"
    by (simp_all add: extends_append wrote_append)
  ultimately show ?thesis by blast
next
  case Raises_USBError
  let ?s3 = "s1\<lparr>trace := trace s1 @ [DevWrite (epOut s1) data, DevClearHalt (epOut s1)]\<rparr>"
  have "snd (MscDriver_sendWriteCommand p ok command data f s) = ?s3
        \<or> snd (MscDriver_sendWriteCommand p ok command data f s)
          = snd (MscDriver_readResponse p ok f ?s3)"
    using wc Raises_USBError
    by (simp add: MscDriver_sendWriteCommand_def UsbDriver_write_result
        UsbDriver_clear_halt_result split: prod.splits sum.splits usb_outcome.splits)
  moreover have "extends s1 ?s3" "wrote s1 ?s3 = [data]"
    by (simp_all add: extends_append wrote_append)
  ultimately show ?thesis by blast
qed

lemma sendCommand_wrote:
  "\<forall>w \<in> set (wrote s (snd (MscDriver_sendCommand p ok command f s))). cbw_tag_lun w = Some (0, 0)"
proof -
  obtain r1 s1 where wc: "MscDriver_writeCommand DIRECTION_WRITE command 0 0 0 s = (r1, s1)"
    by (cases "MscDriver_writeCommand DIRECTION_WRITE command 0 0 0 s")
  from writeCommand_wrote [OF wc]
  have e: "extends s s1" and w: "\<forall>w \<in> set (wrote s s1). cbw_tag_lun w = Some (0, 0)"
    by auto
  show ?thesis
  proof (cases r1)
    case (Inl err)
    with wc have "snd (MscDriver_sendCommand p ok command f s) = s1"
      by (simp add: MscDriver_sendCommand_def)
    with w show ?thesis by simp
  next
    case (Inr u)
    with wc have "snd (MscDriver_sendCommand p ok command f s)
                    = snd (MscDriver_readResponse p ok f s1)"
      by (simp add: MscDriver_sendCommand_def)
    with readResponse_after [OF e, of p ok f] w cbw_tag_lun_request_sense
    show ?thesis by auto
  qed
qed

lemma sendReadCommand_wrote:
  "\<forall>w \<in> set (wrote s (snd (MscDriver_sendReadCommand p ok command sz f s))).
      cbw_tag_lun w = Some (0, 0)"
proof -
  obtain r1 s1 where wc: "MscDriver_writeCommand DIRECTION_READ command sz 0 0 s = (r1, s1)"
    by (cases "MscDriver_writeCommand DIRECTION_READ command sz 0 0 s")
  from writeCommand_wrote [OF wc]
  have e: "extends s s1" and w: "\<forall>w \<in> set (wrote s s1). cbw_tag_lun w = Some (0, 0)"
    by auto
  from sendReadCommand_data_phase [OF wc, of p ok f]
  obtain s3 where e3: "extends s1 s3" and w3: "wrote s1 s3 = []"
    and fin: "snd (MscDriver_sendReadCommand p ok command sz f s) = s3
              \<or> snd (MscDriver_sendReadCommand p ok command sz f s)
                  = snd (MscDriver_readResponse p ok f s3)"
    by blast
  have e13: "extends s s3" using e e3 by (rule extends_trans)
  have w13: "wrote s s3 = wrote s s1" using wrote_trans [OF e e3] w3 by simp
  from fin show ?thesis
  proof
    assume "snd (MscDriver_sendReadCommand p ok command sz f s) = s3"
    with w13 w show ?thesis by simp
  next
    assume "snd (MscDriver_sendReadCommand p ok command sz f s)
              = snd (MscDriver_readResponse p ok f s3)"
    with readResponse_after [OF e13, of p ok f] w13 w cbw_tag_lun_request_sense
    show ?thesis by auto
  qed
qed

lemma sendWriteCommand_wrote:
  "\<forall>i < length (wrote s (snd (MscDriver_sendWriteCommand p ok command data f s))).
      if i = 1 then wrote s (snd (MscDriver_sendWriteCommand p ok command data f s)) ! i = data
      else cbw_tag_lun (wrote s (snd (MscDriver_sendWriteCommand p ok command data f s)) ! i)
             = Some (0, 0)"
proof -
  obtain r1 s1 where
    wc: "MscDriver_writeCommand DIRECTION_WRITE command (int (length data)) 0 0 s = (r1, s1)"
    by (cases "MscDriver_writeCommand DIRECTION_WRITE command (int (length data)) 0 0 s")
  from writeCommand_wrote [OF wc]
  have e: "extends s s1"
    and w: "wrote s s1 = [] \<and> isl r1 \<or> (\<exists>bs. wrote s s1 = [bs] \<and> cbw_tag_lun bs = Some (0, 0))"
    by auto
  show ?thesis
  proof (cases r1)
    case (Inl err)
    with wc have "snd (MscDriver_sendWriteCommand p ok command data f s) = s1"
      by (simp add: MscDriver_sendWriteCommand_def)
    with w show ?thesis by auto
  next
    case (Inr u)
    with w obtain bs where bs: "wrote s s1 = [bs]" and t: "cbw_tag_lun bs = Some (0, 0)"
      by auto
    from wc Inr sendWriteCommand_data_phase [of command data s u s1 p ok f]
    obtain s3 where e3: "extends s1 s3" and w3: "wrote s1 s3 = [data]"
      and fin: "snd (MscDriver_sendWriteCommand p ok command data f s) = s3
              \<or> snd (MscDriver_sendWriteCommand p ok command data f s)
                  = snd (MscDriver_readResponse p ok f s3)"
      by blast
    have e13: "extends s s3" using e e3 by (rule extends_trans)
    have w13: "wrote s s3 = [bs, data]" using wrote_trans [OF e e3] w3 bs by simp
    from fin readResponse_after [OF e13, of p ok f] w13
    have "wrote s (snd (MscDriver_sendWriteCommand p ok command data f s)) = [bs, data]
          \<or> wrote s (snd (MscDriver_sendWriteCommand p ok command data f s))
              = [bs, data, cbw_wire_spec 0 18 DIRECTION_READ 0 REQUEST_SENSE_BYTES]"
      by auto
    with t cbw_tag_lun_request_sense show ?thesis
      by (auto simp add: less_Suc_eq nth_Cons')
  qed
qed

text \<open>
  C9: every buffer that \<open>sendCommand\<close> and \<open>sendReadCommand\<close> write, and every buffer
  that \<open>sendWriteCommand\<close> writes other than its second one (the data of the data phase),
  decodes as a command block wrapper with tag 0 and lun 0; this includes the command block
  of a REQUEST SENSE that the status phase may send.
\<close>

theorem public_operations_tag_lun_zero:
  "(\<forall>w \<in> set (wrote s (snd (MscDriver_sendCommand p ok command f s))).
       cbw_tag_lun w = Some (0, 0))
   \<and> (\<forall>w \<in> set (wrote s (snd (MscDriver_sendReadCommand p ok command sz f s))).
       cbw_tag_lun w = Some (0, 0))
   \<and> (\<forall>i < length (wrote s (snd (MscDriver_sendWriteCommand p ok command data f s))).
       if i = 1 then wrote s (snd (MscDriver_sendWriteCommand p ok command data f s)) ! i = data
       else cbw_tag_lun (wrote s (snd (MscDriver_sendWriteCommand p ok command data f s)) ! i)
              = Some (0, 0))"
  by (intro conjI sendCommand_wrote sendReadCommand_wrote sendWriteCommand_wrote)

theorem public_operations_tag_lun_zero_witness:
  "wrote write_sense_device
     (snd (MscDriver_sendWriteCommand parse_example [] [CHR 0x2A] ''abc'' False write_sense_device))
     = [cbw_wire_spec 0 3 0 0 [CHR 0x2A], ''abc'',
        cbw_wire_spec 0 18 0x80 0 REQUEST_SENSE_BYTES]
   \<and> cbw_tag_lun (cbw_wire_spec 0 3 0 0 [CHR 0x2A]) = Some (0, 0)
   \<and> cbw_tag_lun (cbw_wire_spec 0 18 0x80 0 REQUEST_SENSE_BYTES) = Some (0, 0)"
proof -
  have un0: "MscCommandStatusWrapper_unpack (csw_bytes 0)
        = Inr \<lparr>csw_signature = ''USBS'', csw_tag = 0, csw_dataResidue = 0, csw_status = 0\<rparr>"
    by (simp add: MscCommandStatusWrapper_unpack_def csw_bytes_def field_def
        MscCommandStatusWrapper_size_def eval_nat_numeral char_of_def)
  have un1: "MscCommandStatusWrapper_unpack (csw_bytes 1)
        = Inr \<lparr>csw_signature = ''USBS'', csw_tag = 0, csw_dataResidue = 0, csw_status = 1\<rparr>"
    by (simp add: MscCommandStatusWrapper_unpack_def csw_bytes_def field_def
        MscCommandStatusWrapper_size_def eval_nat_numeral char_of_def)
  have pk1: "MscCommandBlockWrapper_pack
     \<lparr>cbw_signature = ''USBC'', cbw_tag = 0, cbw_dataTransferLength = 3,
      cbw_flags = 0, cbw_lun = 0, cbw_commandLength = int (length [CHR 0x2A]),
      cbw_command = ljust 16 (CHR 0x00) [CHR 0x2A]\<rparr>
   = Inr (cbw_wire_spec 0 3 0 0 [CHR 0x2A])"
    using cbw_pack_public [of 3 "[CHR 0x2A]" 0]
    by (simp add: fits_def)
  have pk2: "MscCommandBlockWrapper_pack
     \<lparr>cbw_signature = ''USBC'', cbw_tag = 0, cbw_dataTransferLength = 18,
      cbw_flags = DIRECTION_READ, cbw_lun = 0,
      cbw_commandLength = int (length REQUEST_SENSE_BYTES),
      cbw_command = ljust 16 (CHR 0x00) REQUEST_SENSE_BYTES\<rparr>
   = Inr (cbw_wire_spec 0 18 0x80 0 REQUEST_SENSE_BYTES)"
    using cbw_pack_public [of 18 REQUEST_SENSE_BYTES 128]
    by (simp add: fits_def REQUEST_SENSE_BYTES_def DIRECTION_READ_def)
  have run: "snd (MscDriver_sendWriteCommand parse_example [] [CHR 0x2A] ''abc'' False
                    write_sense_device)
     = write_sense_device\<lparr>trace := [DevWrite 0x02 (cbw_wire_spec 0 3 0 0 [CHR 0x2A]),
           DevWrite 0x02 ''abc'', DevRead 0x81 13,
           DevWrite 0x02 (cbw_wire_spec 0 18 0x80 0 REQUEST_SENSE_BYTES),
           DevRead 0x81 18, DevRead 0x81 13]\<rparr>"
    using pk1
    by (simp add: MscDriver_sendWriteCommand_def MscDriver_sendReadCommand.simps
        MscDriver_requestSense.simps MscDriver_readResponse.simps requestSense_command_18
        MscDriver_writeCommand_def pk2 UsbDriver_write_result UsbDriver_read_result
        MscCommandStatusWrapper_size_def write_sense_device_def DIRECTION_WRITE_def
        un0 un1 parse_example_def)
  have w: "wrote write_sense_device
     (snd (MscDriver_sendWriteCommand parse_example [] [CHR 0x2A] ''abc'' False write_sense_device))
     = [cbw_wire_spec 0 3 0 0 [CHR 0x2A], ''abc'',
        cbw_wire_spec 0 18 0x80 0 REQUEST_SENSE_BYTES]"
    unfolding run by (simp add: wrote_def calls_since_def write_sense_device_def)
  from public_operations_tag_lun_zero [of write_sense_device parse_example "[]" "[CHR 0x2A]"
      False 0 "''abc''"]
  have all: "\<forall>i < length (wrote write_sense_device (snd (MscDriver_sendWriteCommand
               parse_example [] [CHR 0x2A] ''abc'' False write_sense_device))).
       if i = 1 then wrote write_sense_device (snd (MscDriver_sendWriteCommand
               parse_example [] [CHR 0x2A] ''abc'' False write_sense_device)) ! i = ''abc''
       else cbw_tag_lun (wrote write_sense_device (snd (MscDriver_sendWriteCommand
               parse_example [] [CHR 0x2A] ''abc'' False write_sense_device)) ! i)
              = Some (0, 0)"
    by blast
  from all [unfolded w, rule_format, of 0] all [unfolded w, rule_format, of 2] w
  show ?thesis by simp
qed

end
